theory Spec2Isabelle
  imports Complex_Main "HOL-Library.Word"
begin

section \<open>Meter share calculator: the arithmetic and the reading store\<close>

text \<open>
  A shallow embedding of \<^verbatim>\<open>src/components/MeterCalculator.tsx\<close>: the four
  state handlers of the component (\<^verbatim>\<open>addTenant\<close>, \<^verbatim>\<open>removeTenant\<close>,
  \<^verbatim>\<open>updateReading\<close> and the toast they raise) and the derived values computed on every
  render (\<^verbatim>\<open>unitPrice\<close>, \<^verbatim>\<open>usage\<close>, \<^verbatim>\<open>totalUsed\<close>, \<^verbatim>\<open>unaccounted\<close>,
  \<^verbatim>\<open>bonusPerTenant\<close>, \<^verbatim>\<open>results\<close>).
\<close>

subsection \<open>JavaScript numbers\<close>

text \<open>
  A JavaScript \<^verbatim>\<open>number\<close> is a finite value, one of the two infinities, or NaN.
  Finite values are modelled as exact rationals: the rounding error of binary64
  arithmetic is not part of the model, and the two zeros are identified (they are equal
  under \<^verbatim>\<open>===\<close> and \<^verbatim>\<open><\<close>; a zero divisor is the positive zero, which is what
  \<^verbatim>\<open>parseFloat(...) || 0\<close> of the input handlers stores). Division by zero, and
  arithmetic on the infinities and NaN, follow IEEE 754 as JavaScript does.
\<close>

datatype jsnum = Fin rat | PInf | NInf | NaN

fun isFinite :: "jsnum \<Rightarrow> bool" where
  "isFinite (Fin x) = True"
| "isFinite PInf = False"
| "isFinite NInf = False"
| "isFinite NaN = False"


instantiation jsnum :: "{plus, uminus, minus, times, inverse}"
begin

fun plus_jsnum :: "jsnum \<Rightarrow> jsnum \<Rightarrow> jsnum" where
  "plus_jsnum (Fin a) (Fin b) = Fin (a + b)"
| "plus_jsnum (Fin a) PInf = PInf"
| "plus_jsnum (Fin a) NInf = NInf"
| "plus_jsnum (Fin a) NaN = NaN"
| "plus_jsnum PInf (Fin b) = PInf"
| "plus_jsnum PInf PInf = PInf"
| "plus_jsnum PInf NInf = NaN"
| "plus_jsnum PInf NaN = NaN"
| "plus_jsnum NInf (Fin b) = NInf"
| "plus_jsnum NInf PInf = NaN"
| "plus_jsnum NInf NInf = NInf"
| "plus_jsnum NInf NaN = NaN"
| "plus_jsnum NaN y = NaN"

fun uminus_jsnum :: "jsnum \<Rightarrow> jsnum" where
  "uminus_jsnum (Fin a) = Fin (- a)"
| "uminus_jsnum PInf = NInf"
| "uminus_jsnum NInf = PInf"
| "uminus_jsnum NaN = NaN"

definition minus_jsnum :: "jsnum \<Rightarrow> jsnum \<Rightarrow> jsnum" where
  "minus_jsnum x y = x + (- y)"

fun times_jsnum :: "jsnum \<Rightarrow> jsnum \<Rightarrow> jsnum" where
  "times_jsnum (Fin a) (Fin b) = Fin (a * b)"
| "times_jsnum (Fin a) PInf = (if a = 0 then NaN else if 0 < a then PInf else NInf)"
| "times_jsnum (Fin a) NInf = (if a = 0 then NaN else if 0 < a then NInf else PInf)"
| "times_jsnum (Fin a) NaN = NaN"
| "times_jsnum PInf (Fin b) = (if b = 0 then NaN else if 0 < b then PInf else NInf)"
| "times_jsnum PInf PInf = PInf"
| "times_jsnum PInf NInf = NInf"
| "times_jsnum PInf NaN = NaN"
| "times_jsnum NInf (Fin b) = (if b = 0 then NaN else if 0 < b then NInf else PInf)"
| "times_jsnum NInf PInf = NInf"
| "times_jsnum NInf NInf = PInf"
| "times_jsnum NInf NaN = NaN"
| "times_jsnum NaN y = NaN"

fun divide_jsnum :: "jsnum \<Rightarrow> jsnum \<Rightarrow> jsnum" where
  "divide_jsnum (Fin a) (Fin b) =
     (if b = 0 then (if a = 0 then NaN else if 0 < a then PInf else NInf)
      else Fin (a / b))"
| "divide_jsnum (Fin a) PInf = Fin 0"
| "divide_jsnum (Fin a) NInf = Fin 0"
| "divide_jsnum (Fin a) NaN = NaN"
| "divide_jsnum PInf (Fin b) = (if 0 \<le> b then PInf else NInf)"
| "divide_jsnum PInf PInf = NaN"
| "divide_jsnum PInf NInf = NaN"
| "divide_jsnum PInf NaN = NaN"
| "divide_jsnum NInf (Fin b) = (if 0 \<le> b then NInf else PInf)"
| "divide_jsnum NInf PInf = NaN"
| "divide_jsnum NInf NInf = NaN"
| "divide_jsnum NInf NaN = NaN"
| "divide_jsnum NaN y = NaN"

definition inverse_jsnum :: "jsnum \<Rightarrow> jsnum" where
  "inverse_jsnum x = divide (Fin 1) x"

instance ..

end

text \<open>
  \<^verbatim>\<open>x.toFixed(2)\<close> takes the integer \<open>n\<close> for which \<open>n / 100\<close> is nearest to \<open>|x|\<close>,
  the larger one on a tie, and prints it with the sign of \<open>x\<close>: rounding half away from
  zero. \<open>rnd2\<close> is the value of that string on a finite \<open>x\<close>. (From \<open>10\<^sup>2\<^sup>1\<close> on
  \<^verbatim>\<open>toFixed\<close> prints the number itself; every binary64 value of that size is an integer,
  which \<open>rnd2\<close> leaves as it is.) NaN and the infinities print as \<^verbatim>\<open>NaN\<close>,
  \<^verbatim>\<open>Infinity\<close>, \<^verbatim>\<open>-Infinity\<close>, which \<^verbatim>\<open>parseFloat\<close> reads back.
\<close>

definition rnd2 :: "rat \<Rightarrow> rat" where
  "rnd2 x = sgn x * of_int \<lfloor>\<bar>x\<bar> * 100 + 1 / 2\<rfloor> / 100"

text \<open>\<open>toFixed2 x\<close> is \<^verbatim>\<open>parseFloat(x.toFixed(2))\<close>.\<close>

fun toFixed2 :: "jsnum \<Rightarrow> jsnum" where
  "toFixed2 (Fin x) = Fin (rnd2 x)"
| "toFixed2 PInf = PInf"
| "toFixed2 NInf = NInf"
| "toFixed2 NaN = NaN"



subsection \<open>JavaScript strings\<close>

text \<open>
  A string is a sequence of UTF-16 code units. \<open>str\<close> embeds an ASCII literal,
  \<open>fromCharCode\<close> is \<^verbatim>\<open>String.fromCharCode\<close> (its argument taken modulo \<open>2\<^sup>1\<^sup>6\<close>) and
  \<open>toString\<close> is \<^verbatim>\<open>Number.prototype.toString\<close> on an integer: its decimal digits.
\<close>

type_synonym jsstring = "16 word list"

definition str :: "string \<Rightarrow> jsstring" where
  "str cs = map (\<lambda>c. word_of_nat (of_char c)) cs"

definition fromCharCode :: "nat \<Rightarrow> jsstring" where
  "fromCharCode n = [word_of_nat n]"

fun dec :: "nat \<Rightarrow> jsstring" where
  "dec n = (if n < 10 then [word_of_nat (48 + n)]
            else dec (n div 10) @ [word_of_nat (48 + n mod 10)])"

definition toString :: "int \<Rightarrow> jsstring" where
  "toString i = (if i < 0 then 45 # dec (nat (- i)) else dec (nat i))"

text \<open>Reading a decimal string back, used to show that \<open>toString\<close> is injective.\<close>

definition undec :: "jsstring \<Rightarrow> nat" where
  "undec cs = foldl (\<lambda>a c. 10 * a + (unat c - 48)) 0 cs"

subsection \<open>The component's state\<close>

text \<open>
  \<^verbatim>\<open>interface TenantReading { id: string; name: string; previous: number; current: number }\<close>
\<close>

record TenantReading =
  id' :: jsstring
  name :: jsstring
  previous :: jsnum
  current :: jsnum

text \<open>An element of \<^verbatim>\<open>usage\<close>: \<^verbatim>\<open>{ ...r, used }\<close>.\<close>

record Usage = TenantReading +
  used :: jsnum

text \<open>\<^verbatim>\<open>interface CalculationResult\<close>; its \<^verbatim>\<open>name\<close> and \<^verbatim>\<open>used\<close> are \<open>cr_name\<close> and \<open>cr_used\<close>.\<close>

record CalculationResult =
  cr_name :: jsstring
  cr_used :: jsnum
  bonus :: jsnum
  finalUnits :: jsnum
  bill :: jsnum
  percentage :: jsnum

text \<open>The argument of \<^verbatim>\<open>toast(...)\<close>.\<close>

record Toast =
  title :: jsstring
  description :: jsstring
  variant :: jsstring

text \<open>
  The three \<^verbatim>\<open>useState\<close> cells, and the toasts raised so far (the effect of
  \<^verbatim>\<open>toast\<close>, as a log).
\<close>

record State =
  readings :: "TenantReading list"
  totalUnits :: jsnum
  totalAmount :: jsnum
  toasts :: "Toast list"

text \<open>The state the component starts in.\<close>

definition initial :: State where
  "initial =
     \<lparr>readings =
        [\<lparr>id' = str ''1'', name = str ''Tenant A'',
          previous = Fin (9787 / 100), current = Fin (12695 / 100)\<rparr>,
         \<lparr>id' = str ''2'', name = str ''Tenant B'',
          previous = Fin (1553 / 10), current = Fin (1754 / 10)\<rparr>],
      totalUnits = Fin (528 / 10), totalAmount = Fin 12000, toasts = []\<rparr>"

subsection \<open>The reading store\<close>

text \<open>
  \<^verbatim>\<open>addTenant\<close>; \<open>now\<close> is what \<^verbatim>\<open>Date.now()\<close> returns at the call, in milliseconds.
\<close>

definition addTenant :: "int \<Rightarrow> State \<Rightarrow> State" where
  "addTenant now s =
     (let newId = toString now
      in s\<lparr>readings := readings s @
            [\<lparr>id' = newId,
              name = str ''Tenant '' @ fromCharCode (65 + length (readings s)),
              previous = Fin 0, current = Fin 0\<rparr>]\<rparr>)"

definition cannot_remove :: Toast where
  "cannot_remove =
     \<lparr>title = str ''Cannot remove tenant'',
      description = str ''At least one tenant is required.'',
      variant = str ''destructive''\<rparr>"

definition removeTenant :: "jsstring \<Rightarrow> State \<Rightarrow> State" where
  "removeTenant i s =
     (if length (readings s) > 1
      then s\<lparr>readings := filter (\<lambda>r. id' r \<noteq> i) (readings s)\<rparr>
      else s\<lparr>toasts := toasts s @ [cannot_remove]\<rparr>)"

text \<open>
  \<^verbatim>\<open>updateReading(id, field, value)\<close>: a field of \<^verbatim>\<open>keyof TenantReading\<close> together with
  a value of the type that field is declared with.
\<close>

datatype field_value =
  Id jsstring | Name jsstring | Previous jsnum | Current jsnum

fun set_field :: "field_value \<Rightarrow> TenantReading \<Rightarrow> TenantReading" where
  "set_field (Id v) r = r\<lparr>id' := v\<rparr>"
| "set_field (Name v) r = r\<lparr>name := v\<rparr>"
| "set_field (Previous v) r = r\<lparr>previous := v\<rparr>"
| "set_field (Current v) r = r\<lparr>current := v\<rparr>"

definition updateReading :: "jsstring \<Rightarrow> field_value \<Rightarrow> State \<Rightarrow> State" where
  "updateReading i fv s =
     s\<lparr>readings := map (\<lambda>r. if id' r = i then set_field fv r else r) (readings s)\<rparr>"

subsection \<open>The calculations\<close>

definition unitPrice :: "State \<Rightarrow> jsnum" where
  "unitPrice s = totalAmount s / totalUnits s"

definition usage :: "State \<Rightarrow> Usage list" where
  "usage s =
     map (\<lambda>r. \<lparr>id' = id' r, name = name r, previous = previous r, current = current r,
               used = toFixed2 (current r - previous r)\<rparr>)
       (readings s)"

definition totalUsed :: "State \<Rightarrow> jsnum" where
  "totalUsed s = foldl (\<lambda>acc r. acc + used r) (Fin 0) (usage s)"

definition unaccounted :: "State \<Rightarrow> jsnum" where
  "unaccounted s = toFixed2 (totalUnits s - totalUsed s)"

definition bonusPerTenant :: "State \<Rightarrow> jsnum" where
  "bonusPerTenant s = toFixed2 (unaccounted s / Fin (of_nat (length (usage s))))"

definition results :: "State \<Rightarrow> CalculationResult list" where
  "results s =
     map (\<lambda>r.
        let finalUnits' = used r + bonusPerTenant s;
            share = finalUnits' / totalUnits s;
            bill' = share * totalAmount s
        in \<lparr>cr_name = name r,
            cr_used = used r,
            bonus = bonusPerTenant s,
            finalUnits = toFixed2 finalUnits',
            bill = toFixed2 bill',
            percentage = toFixed2 (share * Fin 100)\<rparr>)
       (usage s)"



subsection \<open>Concrete states\<close>




text \<open>A store of 26 tenants.\<close>

definition full_house :: State where
  "full_house =
     \<lparr>readings =
        map (\<lambda>i. \<lparr>id' = toString (int i), name = str ''Tenant'',
                  previous = Fin 0, current = Fin 0\<rparr>) [0..<26],
      totalUnits = Fin 100, totalAmount = Fin 12000, toasts = []\<rparr>"

text \<open>Two presses of "Add Tenant" at the same reading of the clock.\<close>

definition twice_added :: State where
  "twice_added = addTenant 1700000000000 (addTenant 1700000000000 initial)"

section \<open>Rounding to two decimals\<close>

lemma floor_half: "\<lfloor>1 / 2 :: rat\<rfloor> = 0"
  by (rule floor_unique) simp_all

lemma rnd2_nonneg_eq: "0 \<le> x \<Longrightarrow> rnd2 x = of_int \<lfloor>x * 100 + 1 / 2\<rfloor> / 100"
proof (cases "x = 0")
  case True
  then show ?thesis by (simp add: rnd2_def floor_half)
next
  case False
  assume "0 \<le> x"
  with False have "0 < x" by simp
  then show ?thesis by (simp add: rnd2_def)
qed

lemma rnd2_minus: "rnd2 (- x) = - rnd2 x"
  by (simp add: rnd2_def sgn_minus)



lemma rnd2_of_int_nonneg:
  assumes "0 \<le> k"
  shows "rnd2 (of_int k / 100) = of_int k / 100"
proof -
  have "\<lfloor>(of_int k :: rat) + 1 / 2\<rfloor> = k" by (rule floor_unique) simp_all
  with assms show ?thesis by (simp add: rnd2_nonneg_eq)
qed

lemma rnd2_of_int: "rnd2 (of_int k / 100) = of_int k / 100"
proof (cases "0 \<le> k")
  case True
  then show ?thesis by (rule rnd2_of_int_nonneg)
next
  case False
  then have nn: "0 \<le> - k" by simp
  have eq: "of_int k / 100 = - (of_int (- k) / 100 :: rat)" by simp
  have "rnd2 (- (of_int (- k) / 100)) = - rnd2 (of_int (- k) / 100)"
    by (rule rnd2_minus)
  also have "\<dots> = - (of_int (- k) / 100)"
    by (simp only: rnd2_of_int_nonneg [OF nn])
  finally show ?thesis by (simp only: eq [symmetric])
qed

lemma rnd2_ex: "\<exists>k::int. rnd2 x = of_int k / 100"
proof -
  have "rnd2 x = of_int (sgn \<lfloor>x\<rfloor> * 0 + (if 0 < x then 1 else if x < 0 then - 1 else 0) * \<lfloor>\<bar>x\<bar> * 100 + 1 / 2\<rfloor>) / 100"
    by (simp add: rnd2_def sgn_if)
  then show ?thesis by blast
qed




lemma rnd2_idem_add: "rnd2 (rnd2 a + rnd2 b) = rnd2 a + rnd2 b"
proof -
  obtain k l :: int where "rnd2 a = of_int k / 100" "rnd2 b = of_int l / 100"
    using rnd2_ex by blast
  then have "rnd2 a + rnd2 b = of_int (k + l) / 100" by (simp add: add_divide_distrib)
  then show ?thesis by (simp only: rnd2_of_int)
qed



section \<open>The allocation engine on finite inputs\<close>









lemma percentage_results:
  "map percentage (results s) =
     map (\<lambda>u. toFixed2 ((used u + bonusPerTenant s) / totalUnits s * Fin 100)) (usage s)"
  by (simp add: results_def Let_def comp_def)



















lemma not_finite_div_zero: "\<not> isFinite (Fin a / Fin 0)"
  by simp







section \<open>Decimal strings\<close>

declare dec.simps [simp del]

lemma unat_digit: "n < 10 \<Longrightarrow> unat (word_of_nat (48 + n) :: 16 word) = 48 + n"
  by (simp only: unat_of_nat) simp

lemma dec_small: "n < 10 \<Longrightarrow> dec n = [word_of_nat (48 + n)]"
  by (subst dec.simps) (simp only: if_True)

lemma dec_large: "\<not> n < 10 \<Longrightarrow> dec n = dec (n div 10) @ [word_of_nat (48 + n mod 10)]"
  by (subst dec.simps) (simp only: if_False)

lemma undec_snoc: "undec (cs @ [c]) = 10 * undec cs + (unat c - 48)"
  by (simp add: undec_def)

lemma undec_dec: "undec (dec n) = n"
proof (induction n rule: dec.induct)
  case (1 n)
  show ?case
  proof (cases "n < 10")
    case True
    have "undec (dec n) = unat (word_of_nat (48 + n) :: 16 word) - 48"
      by (simp only: dec_small [OF True]) (simp add: undec_def)
    also have "\<dots> = n" by (simp only: unat_digit [OF True])
    finally show ?thesis .
  next
    case False
    have d: "unat (word_of_nat (48 + n mod 10) :: 16 word) = 48 + n mod 10"
      by (rule unat_digit) simp
    have "undec (dec n) = 10 * undec (dec (n div 10)) + (unat (word_of_nat (48 + n mod 10) :: 16 word) - 48)"
      by (simp only: dec_large [OF False] undec_snoc)
    also have "\<dots> = 10 * (n div 10) + n mod 10"
      by (simp only: d "1.IH" [OF False])
    also have "\<dots> = n" by simp
    finally show ?thesis .
  qed
qed

lemma dec_inj: "dec m = dec n \<Longrightarrow> m = n"
  by (metis undec_dec)

lemma dec_digits: "c \<in> set (dec n) \<Longrightarrow> 48 \<le> unat c"
proof (induction n rule: dec.induct)
  case (1 n)
  show ?case
  proof (cases "n < 10")
    case True
    with "1.prems" have "c = word_of_nat (48 + n)" by (simp only: dec_small) simp
    then have "unat c = 48 + n" by (simp only: unat_digit [OF True])
    then show ?thesis by simp
  next
    case False
    have d: "unat (word_of_nat (48 + n mod 10) :: 16 word) = 48 + n mod 10"
      by (rule unat_digit) simp
    from "1.prems" have "c \<in> set (dec (n div 10)) \<or> c = word_of_nat (48 + n mod 10)"
      by (simp only: dec_large [OF False]) auto
    then show ?thesis
    proof
      assume "c \<in> set (dec (n div 10))"
      then show ?thesis by (rule "1.IH" [OF False])
    next
      assume "c = word_of_nat (48 + n mod 10)"
      then have "unat c = 48 + n mod 10" by (simp only: d)
      then show ?thesis by simp
    qed
  qed
qed

lemma dec_not_Nil: "dec n \<noteq> []"
  by (subst dec.simps) simp

lemma dec_no_minus: "45 # cs \<noteq> dec n"
proof
  assume eq: "45 # cs = dec n"
  then have "(45 :: 16 word) \<in> set (dec n)" by (metis list.set_intros(1))
  then have "48 \<le> unat (45 :: 16 word)" by (rule dec_digits)
  then show False by simp
qed

lemma toString_inj: "toString i = toString j \<Longrightarrow> i = j"
proof -
  assume eq: "toString i = toString j"
  consider "i < 0" "j < 0" | "i < 0" "\<not> j < 0" | "\<not> i < 0" "j < 0" | "\<not> i < 0" "\<not> j < 0"
    by blast
  then show ?thesis
  proof cases
    case 1
    with eq have "dec (nat (- i)) = dec (nat (- j))" by (simp add: toString_def)
    then have "nat (- i) = nat (- j)" by (rule dec_inj)
    with 1 show ?thesis by simp
  next
    case 2
    with eq have "45 # dec (nat (- i)) = dec (nat j)" by (simp add: toString_def)
    then show ?thesis by (simp add: dec_no_minus)
  next
    case 3
    with eq have "45 # dec (nat (- j)) = dec (nat i)" by (simp add: toString_def)
    then show ?thesis by (simp add: dec_no_minus)
  next
    case 4
    with eq have "dec (nat i) = dec (nat j)" by (simp add: toString_def)
    then have "nat i = nat j" by (rule dec_inj)
    with 4 show ?thesis by simp
  qed
qed

lemma toString_1: "toString 1 = str ''1''" "toString 2 = str ''2''"
  by (simp_all add: toString_def str_def dec.simps)

lemma toString_big: "toString 1700000000000 = str ''1700000000000''"
  by (simp add: toString_def str_def dec.simps)

section \<open>The reading store\<close>

lemma filter_no_match: "i \<notin> id' ` set rs \<Longrightarrow> filter (\<lambda>r. id' r \<noteq> i) rs = rs"
  by (induction rs) auto

lemma map_no_match:
  "i \<notin> id' ` set rs \<Longrightarrow> map (\<lambda>r. if id' r = i then f r else r) rs = rs"
  by (induction rs) auto

lemma letters:
  "map (\<lambda>n. fromCharCode (65 + n)) [0..<26] =
   map (\<lambda>n. [str ''ABCDEFGHIJKLMNOPQRSTUVWXYZ'' ! n]) [0..<26]"
  by code_simp

lemma letter: "n < 26 \<Longrightarrow> fromCharCode (65 + n) = [str ''ABCDEFGHIJKLMNOPQRSTUVWXYZ'' ! n]"
  using letters by (simp only: map_eq_conv) simp

lemma fresh_id:
  assumes "\<forall>r \<in> set rs. \<exists>t. id' r = toString t \<and> t \<noteq> now"
  shows "toString now \<notin> id' ` set rs"
proof
  assume "toString now \<in> id' ` set rs"
  then obtain r where r: "r \<in> set rs" and eq: "toString now = id' r" by auto
  from assms r obtain t where "id' r = toString t" and ne: "t \<noteq> now" by blast
  with eq have "toString now = toString t" by simp
  then have "now = t" by (rule toString_inj)
  with ne show False by simp
qed

lemma initial_ids: "map id' (readings initial) = [toString 1, toString 2]"
  by (simp add: initial_def toString_1)

lemma length_updateReading: "length (readings (updateReading i fv s)) = length (readings s)"
  by (simp add: updateReading_def)

lemma length_addTenant: "length (readings (addTenant now s)) = Suc (length (readings s))"
  by (simp add: addTenant_def Let_def)

lemma length_filter_distinct:
  "distinct (map id' rs) \<Longrightarrow> length rs - 1 \<le> length (filter (\<lambda>r. id' r \<noteq> i) rs)"
proof (induction rs)
  case Nil
  then show ?case by simp
next
  case (Cons r rs)
  show ?case
  proof (cases "id' r = i")
    case True
    with Cons.prems have "i \<notin> id' ` set rs" by auto
    then have "filter (\<lambda>r. id' r \<noteq> i) rs = rs" by (rule filter_no_match)
    with True show ?thesis by simp
  next
    case False
    with Cons show ?thesis by auto
  qed
qed

lemma store_nonempty_distinct:
  assumes "readings s \<noteq> []"
  shows "readings (addTenant now s) \<noteq> []"
    and "readings (updateReading i fv s) \<noteq> []"
    and "distinct (map id' (readings s)) \<Longrightarrow> readings (removeTenant j s) \<noteq> []"
proof -
  show "readings (addTenant now s) \<noteq> []" by (simp add: addTenant_def Let_def)
  show "readings (updateReading i fv s) \<noteq> []" using assms by (simp add: updateReading_def)
  show "readings (removeTenant j s) \<noteq> []" if d: "distinct (map id' (readings s))"
  proof (cases "length (readings s) > 1")
    case True
    from length_filter_distinct [OF d, of j] True
    have "length (filter (\<lambda>r. id' r \<noteq> j) (readings s)) \<noteq> 0" by arith
    then have "filter (\<lambda>r. id' r \<noteq> j) (readings s) \<noteq> []" by simp
    with True show ?thesis by (simp add: removeTenant_def)
  next
    case False
    with assms show ?thesis by (simp add: removeTenant_def)
  qed
qed

text \<open>
  Claim C7. On a store of exactly one tenant \<open>removeTenant\<close> is refused for every
  identifier: the toast "Cannot remove tenant" is raised, and the readings and the two
  bill parameters stay as they are.
\<close>

theorem remove_last_refused:
  assumes "length (readings s) = 1"
  shows "removeTenant i s = s\<lparr>toasts := toasts s @ [cannot_remove]\<rparr> \<and>
         readings (removeTenant i s) = readings s \<and>
         totalUnits (removeTenant i s) = totalUnits s \<and>
         totalAmount (removeTenant i s) = totalAmount s \<and>
         toasts (removeTenant i s) = toasts s @ [cannot_remove]"
  using assms by (simp add: removeTenant_def)

text \<open>
  The initial state after Tenant B has been removed holds one tenant; removing
  Tenant A is then refused.
\<close>

theorem remove_last_refused_witness:
  "length (readings (removeTenant (str ''2'') initial)) = 1 \<and>
   readings (removeTenant (str ''1'') (removeTenant (str ''2'') initial)) =
     readings (removeTenant (str ''2'') initial) \<and>
   toasts (removeTenant (str ''1'') (removeTenant (str ''2'') initial)) = [cannot_remove]"
proof -
  have one: "length (readings (removeTenant (str ''2'') initial)) = 1"
    by (simp add: removeTenant_def initial_def str_def)
  have "toasts (removeTenant (str ''2'') initial) = []"
    by (simp add: removeTenant_def initial_def)
  with one remove_last_refused [OF one, of "str ''1''"] show ?thesis by simp
qed

text \<open>
  Claim C10. With an identifier that no tenant of the store carries, \<open>updateReading\<close>
  returns the state it was given, \<open>removeTenant\<close> does so too when the store holds more
  than one tenant, and \<open>removeTenant\<close> never changes the readings.
\<close>

theorem unknown_id_noop:
  assumes "i \<notin> id' ` set (readings s)"
  shows "updateReading i fv s = s \<and>
         (length (readings s) > 1 \<longrightarrow> removeTenant i s = s) \<and>
         readings (removeTenant i s) = readings s"
  using assms by (simp add: updateReading_def removeTenant_def filter_no_match map_no_match)

theorem unknown_id_noop_witness:
  "str ''3'' \<notin> id' ` set (readings initial) \<and>
   updateReading (str ''3'') (Current (Fin 5)) initial = initial \<and>
   removeTenant (str ''3'') initial = initial"
proof -
  have h: "str ''3'' \<notin> id' ` set (readings initial)"
    by (simp add: initial_def str_def)
  have "length (readings initial) > 1" by (simp add: initial_def)
  with h unknown_id_noop [OF h, of "Current (Fin 5)"] show ?thesis by simp
qed

section \<open>The allocation\<close>











section \<open>The worked example\<close>

text \<open>
  Claim C5, as stated, gives the bills of the worked example as about 7020.9 and 4979.1.
  The code yields 7020.45 and 4979.55, each 0.45 away.
\<close>

theorem worked_example_bills_differ:
  "map bill (results initial) = [Fin (702045 / 100), Fin (497955 / 100)] \<and>
   \<bar>702045 / 100 - 70209 / 10\<bar> = (45 / 100 :: rat) \<and>
   \<bar>497955 / 100 - 49791 / 10\<bar> = (45 / 100 :: rat)"
  by code_simp

text \<open>
  Claim C5, amended. For total units 52.8, total amount 12000 and the tenants A
  (97.87 to 126.95) and B (155.3 to 175.4): the usages are 29.08 and 20.10, the total
  used is 49.18, the unaccounted units are 3.62, the bonus is 1.81 for each tenant, the
  final units are 30.89 and 21.91, the unit price shows as 227.27, and the bills are
  7020.45 and 4979.55.
\<close>

theorem worked_example:
  "map used (usage initial) = [Fin (2908 / 100), Fin (2010 / 100)] \<and>
   totalUsed initial = Fin (4918 / 100) \<and>
   unaccounted initial = Fin (362 / 100) \<and>
   bonusPerTenant initial = Fin (181 / 100) \<and>
   map bonus (results initial) = [Fin (181 / 100), Fin (181 / 100)] \<and>
   map finalUnits (results initial) = [Fin (3089 / 100), Fin (2191 / 100)] \<and>
   toFixed2 (unitPrice initial) = Fin (22727 / 100) \<and>
   map bill (results initial) = [Fin (702045 / 100), Fin (497955 / 100)]"
  by code_simp

section \<open>No units purchased\<close>




section \<open>Adding tenants, and the store that must not be empty\<close>

text \<open>
  Claim C9, as stated, gives the new tenant an identity distinct from every existing
  one and a name that follows the letters A, B, C, ... Two presses of "Add Tenant" at
  the same reading of the clock yield two tenants with the same identity, and the tenant
  added to a store of 26 is named "Tenant [".
\<close>

theorem add_collides:
  "map id' (readings twice_added) =
     [str ''1'', str ''2'', str ''1700000000000'', str ''1700000000000''] \<and>
   length (readings full_house) = 26 \<and>
   name (last (readings (addTenant 1700000000000 full_house))) = str ''Tenant [''"
  by (simp add: twice_added_def full_house_def addTenant_def Let_def initial_def toString_big
      fromCharCode_def str_def)

text \<open>
  Claim C9, amended. \<open>addTenant\<close> appends exactly one tenant at the end of the list and
  changes nothing else. The new tenant's identity is the clock reading in decimal; it
  differs from every existing identity when each of those is the decimal form of some
  other integer. Its name is "Tenant " followed by the character with code 65 plus the
  length of the list, which is the letter A to Z for a list of fewer than 26 tenants;
  its previous and current readings are 0.
\<close>

theorem add_appends:
  "readings (addTenant now s) =
     readings s @
       [\<lparr>id' = toString now,
         name = str ''Tenant '' @ fromCharCode (65 + length (readings s)),
         previous = Fin 0, current = Fin 0\<rparr>] \<and>
   totalUnits (addTenant now s) = totalUnits s \<and>
   totalAmount (addTenant now s) = totalAmount s \<and>
   toasts (addTenant now s) = toasts s \<and>
   ((\<forall>r \<in> set (readings s). \<exists>t. id' r = toString t \<and> t \<noteq> now) \<longrightarrow>
      toString now \<notin> id' ` set (readings s)) \<and>
   (length (readings s) < 26 \<longrightarrow>
      fromCharCode (65 + length (readings s)) =
        [str ''ABCDEFGHIJKLMNOPQRSTUVWXYZ'' ! length (readings s)])"
  by (simp add: addTenant_def Let_def fresh_id letter)

text \<open>Adding a third tenant to the initial state gives "Tenant C" a fresh identity.\<close>

theorem add_appends_witness:
  "map id' (readings (addTenant 1700000000000 initial)) =
     [str ''1'', str ''2'', str ''1700000000000''] \<and>
   map name (readings (addTenant 1700000000000 initial)) =
     [str ''Tenant A'', str ''Tenant B'', str ''Tenant C''] \<and>
   str ''1700000000000'' \<notin> id' ` set (readings initial)"
proof -
  note a = add_appends [of 1700000000000 initial]
  have old: "\<forall>r \<in> set (readings initial). \<exists>t. id' r = toString t \<and> t \<noteq> 1700000000000"
  proof
    fix r assume "r \<in> set (readings initial)"
    then have "id' r \<in> set (map id' (readings initial))" by simp
    then have "id' r = toString 1 \<or> id' r = toString 2" by (simp only: initial_ids) simp
    then show "\<exists>t. id' r = toString t \<and> t \<noteq> 1700000000000" by auto
  qed
  have len: "length (readings initial) < 26" by (simp add: initial_def)
  from a old have fresh: "toString 1700000000000 \<notin> id' ` set (readings initial)" by blast
  from a len have "fromCharCode (65 + length (readings initial)) =
      [str ''ABCDEFGHIJKLMNOPQRSTUVWXYZ'' ! length (readings initial)]" by blast
  then have c: "fromCharCode (65 + length (readings initial)) = str ''C''"
    by (simp add: initial_def str_def)
  from a have "readings (addTenant 1700000000000 initial) =
     readings initial @
       [\<lparr>id' = toString 1700000000000,
         name = str ''Tenant '' @ fromCharCode (65 + length (readings initial)),
         previous = Fin 0, current = Fin 0\<rparr>]" by blast
  then have "map id' (readings (addTenant 1700000000000 initial)) =
     [str ''1'', str ''2'', str ''1700000000000''] \<and>
   map name (readings (addTenant 1700000000000 initial)) =
     [str ''Tenant A'', str ''Tenant B'', str ''Tenant C'']"
    by (simp add: c toString_big) (simp add: initial_def str_def)
  with fresh show ?thesis by (simp add: toString_big)
qed

text \<open>
  Claim C8 says that no operation empties a store of at least one tenant. From the
  initial state, two presses of "Add Tenant" at the same reading of the clock and the
  removal of Tenant A and Tenant B leave two tenants with one identity. Removing that
  identity passes the guard \<open>readings.length > 1\<close>, the filter drops both tenants, no
  toast is raised, and the store is empty.
\<close>

theorem store_emptied:
  "map id' (readings twice_added) =
     [str ''1'', str ''2'', str ''1700000000000'', str ''1700000000000''] \<and>
   length (readings (removeTenant (str ''2'') (removeTenant (str ''1'') twice_added))) = 2 \<and>
   readings (removeTenant (str ''1700000000000'')
      (removeTenant (str ''2'') (removeTenant (str ''1'') twice_added))) = [] \<and>
   toasts (removeTenant (str ''1700000000000'')
      (removeTenant (str ''2'') (removeTenant (str ''1'') twice_added))) = []"
  by (simp add: twice_added_def addTenant_def removeTenant_def Let_def initial_def toString_big
      str_def)

end
